theory Spec2Isabelle
  imports Main
begin

section \<open>Python values used by \<^verbatim>\<open>robottelo/vm.py\<close>\<close>

text \<open>
  The module raises one exception class of its own, \<^verbatim>\<open>VirtualMachineError\<close>, always
  with a message. Three built-in failures can escape as well: the \<^verbatim>\<open>IndexError\<close> of a
  list index out of range, the failure of \<^verbatim>\<open>os.path.join\<close> on \<^verbatim>\<open>None\<close>
  (an AttributeError under Python 2, a TypeError under Python 3), and the
  \<^verbatim>\<open>UnboundLocalError\<close> of a local variable read before assignment.
\<close>

datatype error =
    VirtualMachineError string
  | IndexError
  | NoneTypeError
  | UnboundLocalError

text \<open>A value that is a string or \<^verbatim>\<open>None\<close> is a \<open>string option\<close>.
  \<open>fmt\<close> is what \<^verbatim>\<open>'{0}'.format(v)\<close> prints, \<open>truthy\<close> is \<^verbatim>\<open>if v:\<close>.\<close>

definition fmt :: "string option \<Rightarrow> string" where
  "fmt v = (case v of None \<Rightarrow> ''None'' | Some s \<Rightarrow> s)"

definition truthy :: "string option \<Rightarrow> bool" where
  "truthy v = (case v of None \<Rightarrow> False | Some s \<Rightarrow> s \<noteq> [])"

text \<open>\<^verbatim>\<open>str(n)\<close> of an integer, in decimal.\<close>

function str_nat :: "nat \<Rightarrow> string" where
  "str_nat n =
     (if n < 10 then [''0123456789'' ! n]
      else str_nat (n div 10) @ [''0123456789'' ! (n mod 10)])"
  by pat_completeness auto
termination
  by (relation "measure id") auto

declare str_nat.simps [simp del]

definition str_int :: "int \<Rightarrow> string" where
  "str_int i = (if i < 0 then CHR ''-'' # str_nat (nat (- i)) else str_nat (nat i))"

text \<open>\<^verbatim>\<open>s.split(c)\<close> for a one-character separator: every occurrence of \<open>c\<close> cuts,
  so the result has one more element than \<open>s\<close> has occurrences of \<open>c\<close>.
  \<open>py_split1\<close> is \<^verbatim>\<open>s.split(c, 1)\<close>, which cuts at the first occurrence only.\<close>

function py_split :: "char \<Rightarrow> string \<Rightarrow> string list" where
  "py_split c s =
     (case dropWhile (\<lambda>x. x \<noteq> c) s of
        [] \<Rightarrow> [s]
      | _ # rest \<Rightarrow> takeWhile (\<lambda>x. x \<noteq> c) s # py_split c rest)"
  by pat_completeness auto
termination
proof (relation "measure (\<lambda>(c, s). length s)")
  show "wf (measure (\<lambda>(c, s). length s))" by simp
next
  fix c :: char and s :: string and x rest
  assume "dropWhile (\<lambda>x. x \<noteq> c) s = x # rest"
  then have "Suc (length rest) \<le> length s"
    using length_dropWhile_le [of "\<lambda>x. x \<noteq> c" s] by simp
  then show "((c, rest), (c, s)) \<in> measure (\<lambda>(c, s). length s)" by simp
qed

declare py_split.simps [simp del]

definition py_split1 :: "char \<Rightarrow> string \<Rightarrow> string list" where
  "py_split1 c s =
     (case dropWhile (\<lambda>x. x \<noteq> c) s of
        [] \<Rightarrow> [s]
      | _ # rest \<Rightarrow> [takeWhile (\<lambda>x. x \<noteq> c) s, rest])"

text \<open>\<^verbatim>\<open>xs[i]\<close> for a literal index \<open>i \<ge> 0\<close>: out of range raises.\<close>

definition py_index :: "'a list \<Rightarrow> nat \<Rightarrow> error + 'a" where
  "py_index xs i = (if i < length xs then Inr (xs ! i) else Inl IndexError)"

text \<open>\<^verbatim>\<open>sep.join(xs)\<close>.\<close>

fun py_join :: "string \<Rightarrow> string list \<Rightarrow> string" where
  "py_join sep [] = []"
| "py_join sep [x] = x"
| "py_join sep (x # y # ys) = x @ sep @ py_join sep (y # ys)"

text \<open>\<^verbatim>\<open>os.path.join(a, b)\<close> of \<^verbatim>\<open>posixpath\<close> with two arguments; it fails on
  \<^verbatim>\<open>None\<close>.\<close>

definition os_path_join :: "string option \<Rightarrow> string \<Rightarrow> error + string" where
  "os_path_join a b =
     (case a of
        None \<Rightarrow> Inl NoneTypeError
      | Some p \<Rightarrow>
          if take 1 b = ''/'' then Inr b
          else if p = [] \<or> last p = CHR ''/'' then Inr (p @ b)
          else Inr (p @ ''/'' @ b))"

section \<open>The collaborators: configuration, remote shell, helpers\<close>

text \<open>
  \<^verbatim>\<open>robottelo.config.settings\<close>, \<^verbatim>\<open>robottelo.constants\<close>, \<^verbatim>\<open>robottelo.ssh\<close> and
  \<^verbatim>\<open>robottelo.helpers\<close> are imported by the module and are not part of it; they are
  parameters of the model. A configuration value may be \<^verbatim>\<open>None\<close>.
\<close>

record settings =
  distro_image_el6 :: "string option"
  distro_image_el7 :: "string option"
  clients_provisioning_server :: "string option"
  clients_image_dir :: "string option"
  server_hostname :: "string option"
  server_admin_username :: "string option"
  server_admin_password :: "string option"
  rhel6_repo :: "string option"
  rhel7_repo :: "string option"
  rhai_insights_client_el6repo :: "string option"
  rhai_insights_client_el7repo :: "string option"

record ssh_result =
  return_code :: int
  stdout :: "string list"
  stderr :: string

text \<open>
  Every call that leaves the process is logged as an event, in order: a remote command
  with its target host (\<^verbatim>\<open>None\<close> when the call passes no hostname), the settling
  sleep, a file transfer, a call of a trust-certificate helper.
\<close>

datatype event =
    SshCommand string "string option"
  | Sleep nat
  | DownloadFile string "string option" "string option"
  | UploadFile string "string option" "string option"
  | InstallKatelloCa "string option"
  | RemoveKatelloCa "string option"

text \<open>
  The remote side is any deterministic function of the events so far and the call made:
  \<open>ssh_command\<close> gives the result of a command, the two helper fields say whether the
  helper returns (\<open>True\<close>) or raises \<^verbatim>\<open>AssertionError\<close> (\<open>False\<close>).
\<close>

record env =
  settings :: settings
  DISTRO_RHEL6 :: string
  DISTRO_RHEL7 :: string
  ssh_command :: "event list \<Rightarrow> string \<Rightarrow> string option \<Rightarrow> ssh_result"
  helpers_install_katello_ca :: "event list \<Rightarrow> string option \<Rightarrow> bool"
  helpers_remove_katello_ca :: "event list \<Rightarrow> string option \<Rightarrow> bool"

section \<open>The virtual machine object\<close>

text \<open>The attributes \<^verbatim>\<open>_hostname\<close>, \<^verbatim>\<open>_domain\<close>, \<^verbatim>\<open>_created\<close>, \<^verbatim>\<open>_subscribed\<close>
  and \<^verbatim>\<open>_target_image\<close> are the fields with the prefix \<open>p_\<close>. After \<^verbatim>\<open>__init__\<close>
  the provisioning server is a non-empty string.\<close>

record vm =
  cpu :: int
  ram :: int
  distro :: "string option"
  provisioning_server :: string
  image_dir :: "string option"
  p_hostname :: "string option"
  ip_addr :: "string option"
  p_domain :: "string option"
  p_created :: bool
  p_subscribed :: bool
  p_target_image :: string








section \<open>State, errors and sequencing\<close>

text \<open>
  A method runs on the object and the event log and returns a value or raises; what it
  changed before raising stays changed. \<open>bindE\<close> is the sequencing of two statements:
  the second runs only when the first returned.
\<close>

type_synonym state = "vm \<times> event list"

type_synonym 'a result = "(error + 'a) \<times> state"

definition ret :: "'a \<Rightarrow> state \<Rightarrow> 'a result" where
  "ret x s = (Inr x, s)"

definition throw :: "error \<Rightarrow> state \<Rightarrow> 'a result" where
  "throw e s = (Inl e, s)"

definition bindE :: "(state \<Rightarrow> 'a result) \<Rightarrow> ('a \<Rightarrow> state \<Rightarrow> 'b result) \<Rightarrow> state \<Rightarrow> 'b result" where
  "bindE m f s = (case m s of (Inl e, s') \<Rightarrow> (Inl e, s') | (Inr x, s') \<Rightarrow> f x s')"

text \<open>A property that raises or returns, without touching the state.\<close>

definition lift :: "error + 'a \<Rightarrow> state \<Rightarrow> 'a result" where
  "lift v s = (case v of Inl e \<Rightarrow> (Inl e, s) | Inr x \<Rightarrow> (Inr x, s))"

text \<open>The calls to the collaborators: the call is appended to the log, its outcome is
  what the environment answers after the log so far.\<close>

definition ssh_cmd :: "env \<Rightarrow> string \<Rightarrow> string option \<Rightarrow> state \<Rightarrow> ssh_result result" where
  "ssh_cmd e cmd host s =
     (Inr (ssh_command e (snd s) cmd host), fst s, snd s @ [SshCommand cmd host])"

definition time_sleep :: "nat \<Rightarrow> state \<Rightarrow> unit result" where
  "time_sleep n s = (Inr (), fst s, snd s @ [Sleep n])"

definition ssh_download_file :: "string \<Rightarrow> string option \<Rightarrow> string option \<Rightarrow> state \<Rightarrow> unit result" where
  "ssh_download_file remote_path local_path host s =
     (Inr (), fst s, snd s @ [DownloadFile remote_path local_path host])"

definition ssh_upload_file :: "string \<Rightarrow> string option \<Rightarrow> string option \<Rightarrow> state \<Rightarrow> unit result" where
  "ssh_upload_file local_path remote_path host s =
     (Inr (), fst s, snd s @ [UploadFile local_path remote_path host])"

section \<open>The properties \<^verbatim>\<open>domain\<close>, \<^verbatim>\<open>hostname\<close>, \<^verbatim>\<open>target_image\<close>\<close>

definition domain_message :: "vm \<Rightarrow> string" where
  "domain_message self =
     ''Failed to fetch domain from provisioning server: '' @ provisioning_server self @ '' ''"

definition domain :: "vm \<Rightarrow> error + string" where
  "domain self =
     (case p_domain self of
        None \<Rightarrow>
          (case py_index (py_split1 CHR ''.'' (provisioning_server self)) 1 of
             Inl _ \<Rightarrow> Inl (VirtualMachineError (domain_message self))
           | Inr d \<Rightarrow> Inr d)
      | Some d \<Rightarrow> Inr d)"

definition hostname :: "vm \<Rightarrow> error + string" where
  "hostname self =
     (if truthy (p_hostname self) then Inr (fmt (p_hostname self))
      else (case domain self of
              Inl e \<Rightarrow> Inl e
            | Inr d \<Rightarrow> Inr (p_target_image self @ ''.'' @ d)))"

definition target_image :: "vm \<Rightarrow> error + string" where
  "target_image self =
     (if truthy (p_hostname self) then Inr (p_target_image self) else hostname self)"

section \<open>\<^verbatim>\<open>create\<close>\<close>

text \<open>Lines 133 to 159. The keyword arguments of \<^verbatim>\<open>format\<close> are all evaluated, in
  the order written, whether the template uses them or not: a property that raises makes
  the whole call raise.\<close>

definition snap_guest_command :: "vm \<Rightarrow> error + string" where
  "snap_guest_command self =
     (case target_image self of
        Inl e \<Rightarrow> Inl e
      | Inr ti \<Rightarrow>
        (case hostname self of
           Inl e \<Rightarrow> Inl e
         | Inr hn \<Rightarrow>
           (case domain self of
              Inl e \<Rightarrow> Inl e
            | Inr dm \<Rightarrow>
                Inr (py_join '' ''
                  ([''snap-guest'',
                    ''-b '' @ fmt (distro self) @ ''-base'',
                    ''-t '' @ ti,
                    ''-m '' @ str_int (ram self),
                    ''-c '' @ str_int (cpu self),
                    ''-n bridge=br0 -f'']
                   @ (if image_dir self \<noteq> None then [''-p '' @ fmt (image_dir self)] else [])
                   @ (if p_hostname self \<noteq> None then [''--hostname '' @ hn] else [])
                   @ (if p_domain self \<noteq> None then [''-d '' @ dm] else []))))))"

definition ping_command :: "vm \<Rightarrow> string" where
  "ping_command self = ''ping -c 1 '' @ p_target_image self @ ''.local''"

text \<open>Lines 177 and 178: \<^verbatim>\<open>''.join(result.stdout).split('(')[1].split(')')[0]\<close>.\<close>

definition parse_ip_addr :: "string list \<Rightarrow> error + string" where
  "parse_ip_addr out =
     (case py_index (py_split CHR ''('' (concat out)) 1 of
        Inl e \<Rightarrow> Inl e
      | Inr t \<Rightarrow> py_index (py_split CHR '')'' t) 0)"

definition create :: "env \<Rightarrow> state \<Rightarrow> unit result" where
  "create e s =
     (if p_created (fst s) then ret () s
      else
        bindE (lift (snap_guest_command (fst s))) (\<lambda>command.
        bindE (ssh_cmd e command (Some (provisioning_server (fst s)))) (\<lambda>result.
          if return_code result \<noteq> 0
          then throw (VirtualMachineError (''Failed to run snap-guest: '' @ stderr result))
          else
            bindE (time_sleep 60) (\<lambda>_.
            bindE (ssh_cmd e (ping_command (fst s)) (Some (provisioning_server (fst s)))) (\<lambda>result.
              if return_code result \<noteq> 0
              then throw (VirtualMachineError
                     ''Failed to fetch virtual machine IP address information'')
              else
                bindE (lift (parse_ip_addr (stdout result))) (\<lambda>ip.
                  (\<lambda>s'. (Inr (), (fst s')\<lparr>ip_addr := Some ip, p_created := True\<rparr>, snd s'))))))) s)"

section \<open>\<^verbatim>\<open>run\<close>, \<^verbatim>\<open>get\<close>, \<^verbatim>\<open>put\<close>, \<^verbatim>\<open>unregister\<close>\<close>

definition run :: "env \<Rightarrow> string \<Rightarrow> state \<Rightarrow> ssh_result result" where
  "run e cmd s =
     (if \<not> p_created (fst s)
      then throw (VirtualMachineError
             ''The virtual machine should be created before running any ssh command'') s
      else ssh_cmd e cmd (ip_addr (fst s)) s)"

definition get :: "string \<Rightarrow> string option \<Rightarrow> state \<Rightarrow> unit result" where
  "get remote_path local_path s =
     (if \<not> p_created (fst s)
      then throw (VirtualMachineError
             ''The virtual machine should be created before getting any file'') s
      else ssh_download_file remote_path local_path (ip_addr (fst s)) s)"

definition put :: "string \<Rightarrow> string option \<Rightarrow> state \<Rightarrow> unit result" where
  "put local_path remote_path s =
     (if \<not> p_created (fst s)
      then throw (VirtualMachineError
             ''The virtual machine should be created before putting any file'') s
      else ssh_upload_file local_path remote_path (ip_addr (fst s)) s)"

definition unregister :: "env \<Rightarrow> state \<Rightarrow> ssh_result result" where
  "unregister e = run e ''subscription-manager unregister''"

section \<open>\<^verbatim>\<open>destroy\<close>\<close>

definition destroy :: "env \<Rightarrow> state \<Rightarrow> unit result" where
  "destroy e s =
     (if \<not> p_created (fst s) then ret () s
      else
        bindE (if p_subscribed (fst s) then bindE (unregister e) (\<lambda>_. ret ()) else ret ()) (\<lambda>_.
        bindE (lift (target_image (fst s))) (\<lambda>ti.
        bindE (ssh_cmd e (''virsh destroy '' @ ti) (Some (provisioning_server (fst s)))) (\<lambda>_.
        bindE (lift (target_image (fst s))) (\<lambda>ti.
        bindE (ssh_cmd e (''virsh undefine '' @ ti) (Some (provisioning_server (fst s)))) (\<lambda>_.
        bindE (lift (target_image (fst s))) (\<lambda>ti.
        bindE (lift (os_path_join (image_dir (fst s)) (ti @ ''.img''))) (\<lambda>path.
        bindE (ssh_cmd e (''rm '' @ path) (Some (provisioning_server (fst s)))) (\<lambda>_.
          ret ())))))))) s)"

section \<open>Scoped use: \<^verbatim>\<open>__enter__\<close>, \<^verbatim>\<open>__exit__\<close> and the \<^verbatim>\<open>with\<close> statement\<close>

definition enter :: "env \<Rightarrow> state \<Rightarrow> unit result" where
  "enter e = bindE (create e) (\<lambda>_. ret ())"

definition exit_vm :: "env \<Rightarrow> state \<Rightarrow> unit result" where
  "exit_vm e = destroy e"

text \<open>
  \<^verbatim>\<open>with vm: body\<close>, as Python runs it: when \<^verbatim>\<open>__enter__\<close> raises, neither the body
  nor \<^verbatim>\<open>__exit__\<close> runs. Otherwise the body runs and then \<^verbatim>\<open>__exit__\<close>, whether the
  body returned or raised. \<^verbatim>\<open>__exit__\<close> returns \<^verbatim>\<open>None\<close>, so an error of the body
  goes on to the caller; an error raised by \<^verbatim>\<open>__exit__\<close> itself replaces it.
\<close>

definition with_vm :: "env \<Rightarrow> (state \<Rightarrow> 'a result) \<Rightarrow> state \<Rightarrow> 'a result" where
  "with_vm e body s =
     (case enter e s of
        (Inl err, s1) \<Rightarrow> (Inl err, s1)
      | (Inr _, s1) \<Rightarrow>
          (case body s1 of
             (r, s2) \<Rightarrow>
               (case exit_vm e s2 of
                  (Inl err, s3) \<Rightarrow> (Inl err, s3)
                | (Inr _, s3) \<Rightarrow> (r, s3))))"

section \<open>Registration and the trust certificate\<close>

text \<open>Lines 278 to 295: the registration command, or the error when neither an
  activation key nor a lifecycle environment is given.\<close>

definition register_command ::
  "settings \<Rightarrow> string \<Rightarrow> string option \<Rightarrow> string option \<Rightarrow> bool \<Rightarrow> string option \<Rightarrow> error + string" where
  "register_command st org activation_key lce force releasever =
     (let cmd0 = ''subscription-manager register --org '' @ org in
      case
        (if activation_key \<noteq> None
           then Inr (cmd0 @ '' --activationkey '' @ fmt activation_key)
         else if lce \<noteq> None
           then Inr (cmd0 @ '' --environment '' @ fmt lce
                       @ '' --username '' @ fmt (server_admin_username st)
                       @ '' --password '' @ fmt (server_admin_password st))
         else Inl (VirtualMachineError
                (''Please provide either activation key or lifecycle ''
                 @ ''environment name to successfully register a host'')))
      of
        Inl err \<Rightarrow> Inl err
      | Inr cmd1 \<Rightarrow>
          let cmd2 = (if releasever \<noteq> None then cmd1 @ '' --release '' @ fmt releasever else cmd1)
          in Inr (if force then cmd2 @ '' --force'' else cmd2))"

definition register_contenthost ::
  "env \<Rightarrow> string \<Rightarrow> string option \<Rightarrow> string option \<Rightarrow> bool \<Rightarrow> string option
     \<Rightarrow> state \<Rightarrow> ssh_result result" where
  "register_contenthost e org activation_key lce force releasever =
     bindE (lift (register_command (settings e) org activation_key lce force releasever)) (\<lambda>cmd.
     bindE (run e cmd) (\<lambda>result.
     bindE (\<lambda>s. if return_code result = 0
                 then (Inr (), (fst s)\<lparr>p_subscribed := True\<rparr>, snd s)
                 else ret () s) (\<lambda>_.
       ret result)))"

definition install_katello_ca :: "env \<Rightarrow> state \<Rightarrow> unit result" where
  "install_katello_ca e s =
     (if helpers_install_katello_ca e (snd s) (ip_addr (fst s))
      then (Inr (), fst s, snd s @ [InstallKatelloCa (ip_addr (fst s))])
      else (Inl (VirtualMachineError ''Failed to download and install the katello-ca rpm''),
            fst s, snd s @ [InstallKatelloCa (ip_addr (fst s))]))"

definition remove_katello_ca :: "env \<Rightarrow> state \<Rightarrow> unit result" where
  "remove_katello_ca e s =
     (if helpers_remove_katello_ca e (snd s) (ip_addr (fst s))
      then (Inr (), fst s, snd s @ [RemoveKatelloCa (ip_addr (fst s))])
      else (Inl (VirtualMachineError ''Failed to remove the katello-ca rpm''),
            fst s, snd s @ [RemoveKatelloCa (ip_addr (fst s))]))"

section \<open>The orchestration helpers\<close>

definition download_install_rpm :: "env \<Rightarrow> string \<Rightarrow> string \<Rightarrow> state \<Rightarrow> unit result" where
  "download_install_rpm e repo_url package_name =
     bindE (run e (''wget -nd -r -l1 --no-parent -A '' @ [CHR 0x27] @ package_name @ ''.rpm''
                     @ [CHR 0x27] @ '' '' @ repo_url)) (\<lambda>_.
     bindE (run e (''rpm -i '' @ package_name @ ''.rpm'')) (\<lambda>_.
     bindE (run e (''rpm -q '' @ package_name)) (\<lambda>result.
       if return_code result \<noteq> 0
       then throw (VirtualMachineError (''Failed to install '' @ package_name @ '' rpm.''))
       else ret ())))"

definition enable_repo :: "env \<Rightarrow> string \<Rightarrow> state \<Rightarrow> unit result" where
  "enable_repo e repo =
     bindE (run e (''subscription-manager repos --enable '' @ repo)) (\<lambda>_. ret ())"

definition install_katello_agent :: "env \<Rightarrow> state \<Rightarrow> unit result" where
  "install_katello_agent e =
     bindE (run e ''yum install -y katello-agent'') (\<lambda>_.
     bindE (run e ''rpm -q katello-agent'') (\<lambda>result.
       if return_code result \<noteq> 0
       then throw (VirtualMachineError ''Failed to install katello-agent'')
       else ret ()))"

definition configure_rhel_repo :: "env \<Rightarrow> string option \<Rightarrow> state \<Rightarrow> unit result" where
  "configure_rhel_repo e rhel_repo =
     bindE (run e (''wget -O /etc/yum.repos.d/rhel.repo '' @ fmt rhel_repo)) (\<lambda>_. ret ())"

definition puppet_conf :: "string option \<Rightarrow> string" where
  "puppet_conf sat6_hostname =
     ''pluginsync      = true'' @ [CHR 0x0A]
     @ ''report          = true'' @ [CHR 0x0A]
     @ ''ignoreschedules = true'' @ [CHR 0x0A]
     @ ''daemon          = false'' @ [CHR 0x0A]
     @ ''ca_server       = '' @ fmt sat6_hostname @ [CHR 0x0A]
     @ ''server          = '' @ fmt sat6_hostname @ [CHR 0x0A]"

definition puppet_conf_command :: "env \<Rightarrow> string" where
  "puppet_conf_command e =
     ''echo '' @ [CHR 0x22] @ puppet_conf (server_hostname (settings e)) @ [CHR 0x22]
     @ '' >> /etc/puppet/puppet.conf''"

definition configure_puppet :: "env \<Rightarrow> string option \<Rightarrow> state \<Rightarrow> unit result" where
  "configure_puppet e rhel_repo =
     bindE (configure_rhel_repo e rhel_repo) (\<lambda>_.
     bindE (run e ''yum install puppet -y'') (\<lambda>result.
       if return_code result \<noteq> 0
       then throw (VirtualMachineError ''Failed to install the puppet rpm'')
       else
         bindE (run e (puppet_conf_command e)) (\<lambda>_.
         bindE (run e ''puppet agent -t'') (\<lambda>_.
         bindE (ssh_cmd e ''puppet cert sign --all'' None) (\<lambda>_.
         bindE (run e ''puppet agent -t 2> /dev/null'') (\<lambda>_.
           ret ()))))))"

definition policy_lookup_command :: string where
  "policy_lookup_command =
     ''awk -F '' @ [CHR 0x22] @ ''/'' @ [CHR 0x22] @ '' '' @ [CHR 0x27]
     @ ''/download_path/ {print $4}'' @ [CHR 0x27]
     @ '' /etc/foreman_scap_client/config.yaml''"

text \<open>The local variable \<^verbatim>\<open>result\<close> is bound only inside the branch
  \<^verbatim>\<open>policy_id is None\<close>: it is carried as an option, \<open>None\<close> for unbound, and
  reading it unbound raises.\<close>

definition execute_foreman_scap_client :: "env \<Rightarrow> string option \<Rightarrow> state \<Rightarrow> unit result" where
  "execute_foreman_scap_client e policy_id =
     bindE (case policy_id of
              None \<Rightarrow>
                bindE (run e policy_lookup_command) (\<lambda>result.
                bindE (lift (py_index (stdout result) 0)) (\<lambda>line.
                  ret (Some result, line)))
            | Some p \<Rightarrow> ret (None, p)) (\<lambda>(result, policy_id).
     bindE (run e (''foreman_scap_client '' @ policy_id)) (\<lambda>_.
       case result of
         None \<Rightarrow> throw UnboundLocalError
       | Some r \<Rightarrow>
           if return_code r \<noteq> 0
           then throw (VirtualMachineError ''Failed to execute foreman_scap_client run.'')
           else ret ()))"

text \<open>In \<^verbatim>\<open>configure_rhai_client\<close> the locals \<^verbatim>\<open>rhel_repo\<close> and
  \<^verbatim>\<open>insights_repo\<close> are bound together, by either of two \<^verbatim>\<open>if\<close> statements, or
  not at all.\<close>

definition rhai_repos :: "env \<Rightarrow> string \<Rightarrow> (string option \<times> string option) option" where
  "rhai_repos e rhel_distro =
     (let r1 = (if rhel_distro = DISTRO_RHEL6 e
                then Some (rhel6_repo (settings e), rhai_insights_client_el6repo (settings e))
                else None)
      in if rhel_distro = DISTRO_RHEL7 e
         then Some (rhel7_repo (settings e), rhai_insights_client_el7repo (settings e))
         else r1)"

definition configure_rhai_client ::
  "env \<Rightarrow> string option \<Rightarrow> string \<Rightarrow> string \<Rightarrow> state \<Rightarrow> unit result" where
  "configure_rhai_client e activation_key org rhel_distro =
     bindE (install_katello_ca e) (\<lambda>_.
     bindE (register_contenthost e org activation_key None True None) (\<lambda>_.
       case rhai_repos e rhel_distro of
         None \<Rightarrow> throw UnboundLocalError
       | Some (rhel_repo, insights_repo) \<Rightarrow>
           let missing_repos = (if insights_repo = None then [''RHAI client''] else [])
                                @ (if rhel_repo = None then [''RHEL''] else [])
           in if missing_repos \<noteq> []
              then throw (VirtualMachineError
                     (''Missing '' @ py_join '' and '' missing_repos
                      @ '' repository configuration for '' @ rhel_distro @ ''.''))
              else
                bindE (configure_rhel_repo e rhel_repo) (\<lambda>_.
                bindE (run e (''wget -O /etc/yum.repos.d/insights.repo '' @ fmt insights_repo)) (\<lambda>_.
                bindE (run e ''yum install -y redhat-access-insights'') (\<lambda>result.
                  if return_code result \<noteq> 0
                  then throw (VirtualMachineError
                         ''Unable to install redhat-access-insights package'')
                  else
                    bindE (run e ''rpm -qi redhat-access-insights'') (\<lambda>result.
                      if return_code result \<noteq> 0
                      then throw (VirtualMachineError
                             ''Unable to install redhat-access-insights package'')
                      else
                        bindE (run e ''redhat-access-insights --register'') (\<lambda>result.
                          if return_code result \<noteq> 0
                          then throw (VirtualMachineError
                                 (''Unable to register client to Access Insights through ''
                                  @ ''Satellite''))
                          else ret ())))))))"

section \<open>The operations of the class, as one type\<close>

datatype call =
    Create
  | Destroy
  | DownloadInstallRpm string string
  | EnableRepo string
  | InstallKatelloAgent
  | InstallKatelloCa_call
  | RegisterContenthost string "string option" "string option" bool "string option"
  | RemoveKatelloCa_call
  | Unregister
  | Run string
  | Get string "string option"
  | Put string "string option"
  | ConfigureRhelRepo "string option"
  | ConfigurePuppet "string option"
  | ExecuteForemanScapClient "string option"
  | ConfigureRhaiClient "string option" string string
  | Enter
  | Exit

text \<open>One call of a method, its return value dropped.\<close>

fun do_call :: "env \<Rightarrow> call \<Rightarrow> state \<Rightarrow> unit result" where
  "do_call e Create = create e"
| "do_call e Destroy = destroy e"
| "do_call e (DownloadInstallRpm u p) = download_install_rpm e u p"
| "do_call e (EnableRepo r) = enable_repo e r"
| "do_call e InstallKatelloAgent = install_katello_agent e"
| "do_call e InstallKatelloCa_call = install_katello_ca e"
| "do_call e (RegisterContenthost org ak lce force rv) =
     bindE (register_contenthost e org ak lce force rv) (\<lambda>_. ret ())"
| "do_call e RemoveKatelloCa_call = remove_katello_ca e"
| "do_call e Unregister = bindE (unregister e) (\<lambda>_. ret ())"
| "do_call e (Run cmd) = bindE (run e cmd) (\<lambda>_. ret ())"
| "do_call e (Get rp lp) = get rp lp"
| "do_call e (Put lp rp) = put lp rp"
| "do_call e (ConfigureRhelRepo r) = configure_rhel_repo e r"
| "do_call e (ConfigurePuppet r) = configure_puppet e r"
| "do_call e (ExecuteForemanScapClient p) = execute_foreman_scap_client e p"
| "do_call e (ConfigureRhaiClient ak org d) = configure_rhai_client e ak org d"
| "do_call e Enter = enter e"
| "do_call e Exit = exit_vm e"

text \<open>The caller's code between enter and exit: calls of the methods one after the
  other, stopped by the first that raises, and then perhaps an error of the caller's
  own.\<close>

fun do_calls :: "env \<Rightarrow> call list \<Rightarrow> error option \<Rightarrow> state \<Rightarrow> unit result" where
  "do_calls e [] None = ret ()"
| "do_calls e [] (Some err) = throw err"
| "do_calls e (c # cs) final = bindE (do_call e c) (\<lambda>_. do_calls e cs final)"

text \<open>
  The class records the life cycle in the flag \<^verbatim>\<open>_created\<close> alone: it starts
  \<^verbatim>\<open>False\<close>, \<^verbatim>\<open>create\<close> sets it, and no line of the module clears it or records a
  destruction. Read as the three-valued state of the specification:
\<close>

datatype lifecycle = Uninitialized | Created | Destroyed

definition lifecycleState :: "vm \<Rightarrow> lifecycle" where
  "lifecycleState self = (if p_created self then Created else Uninitialized)"

section \<open>Concrete inputs\<close>

text \<open>A configuration, a freshly constructed machine and remote sides that answer every
  command alike, used to run the model on concrete inputs.\<close>

definition example_settings :: settings where
  "example_settings =
     \<lparr>distro_image_el6 = Some ''rhel66'', distro_image_el7 = Some ''rhel71'',
      clients_provisioning_server = Some ''prov.example.com'',
      clients_image_dir = Some ''/var/lib/libvirt/images'',
      server_hostname = Some ''sat6.example.com'',
      server_admin_username = Some ''admin'', server_admin_password = Some ''changeme'',
      rhel6_repo = Some ''http://repo.example.com/rhel6.repo'',
      rhel7_repo = Some ''http://repo.example.com/rhel7.repo'',
      rhai_insights_client_el6repo = Some ''http://repo.example.com/insights6.repo'',
      rhai_insights_client_el7repo = Some ''http://repo.example.com/insights7.repo''\<rparr>"

definition example_env :: "(event list \<Rightarrow> string \<Rightarrow> string option \<Rightarrow> ssh_result) \<Rightarrow> env" where
  "example_env answer =
     \<lparr>settings = example_settings, DISTRO_RHEL6 = ''rhel6'', DISTRO_RHEL7 = ''rhel7'',
      ssh_command = answer,
      helpers_install_katello_ca = (\<lambda>_ _. True),
      helpers_remove_katello_ca = (\<lambda>_ _. True)\<rparr>"

text \<open>Every command exits with \<open>rc\<close> and prints \<open>out\<close>.\<close>

definition answer_const :: "int \<Rightarrow> string list \<Rightarrow> event list \<Rightarrow> string \<Rightarrow> string option \<Rightarrow> ssh_result" where
  "answer_const rc out tr cmd host = \<lparr>return_code = rc, stdout = out, stderr = []\<rparr>"

definition ping_reply :: "string list" where
  "ping_reply = [''PING vm7.local (192.0.2.5) 56(84) bytes of data.'']"

text \<open>The first two commands (those of \<^verbatim>\<open>create\<close>) succeed; every later command
  exits with 1.\<close>

definition answer_ok_then_fail :: "event list \<Rightarrow> string \<Rightarrow> string option \<Rightarrow> ssh_result" where
  "answer_ok_then_fail tr cmd host =
     \<lparr>return_code = (if length tr < 3 then 0 else 1), stdout = ping_reply, stderr = []\<rparr>"

text \<open>Every command exits with 0, but for the scan, which exits with 1.\<close>

definition answer_scan_fails :: "event list \<Rightarrow> string \<Rightarrow> string option \<Rightarrow> ssh_result" where
  "answer_scan_fails tr cmd host =
     \<lparr>return_code = (if take 19 cmd = ''foreman_scap_client'' then 1 else 0),
      stdout = [''1''], stderr = []\<rparr>"

text \<open>The object \<^verbatim>\<open>VirtualMachine(tag='vm')\<close> with \<^verbatim>\<open>id(self) = 7\<close> under
  \<open>example_settings\<close>, the same object after \<^verbatim>\<open>create()\<close>, and the events of that
  \<^verbatim>\<open>create()\<close>.\<close>

definition example_vm :: vm where
  "example_vm =
     \<lparr>cpu = 1, ram = 512, distro = Some ''rhel71'', provisioning_server = ''prov.example.com'',
      image_dir = Some ''/var/lib/libvirt/images'', p_hostname = None, ip_addr = None,
      p_domain = None, p_created = False, p_subscribed = False, p_target_image = ''vm7''\<rparr>"

definition example_created :: vm where
  "example_created = example_vm\<lparr>ip_addr := Some ''192.0.2.5'', p_created := True\<rparr>"

definition example_trace :: "event list" where
  "example_trace =
     [SshCommand (''snap-guest -b rhel71-base -t vm7.example.com -m 512 -c 1 ''
                  @ ''-n bridge=br0 -f -p /var/lib/libvirt/images'') (Some ''prov.example.com''),
      Sleep 60,
      SshCommand ''ping -c 1 vm7.local'' (Some ''prov.example.com'')]"

definition example_destroy_trace :: "event list" where
  "example_destroy_trace =
     [SshCommand ''virsh destroy vm7.example.com'' (Some ''prov.example.com''),
      SshCommand ''virsh undefine vm7.example.com'' (Some ''prov.example.com''),
      SshCommand ''rm /var/lib/libvirt/images/vm7.example.com.img'' (Some ''prov.example.com'')]"

section \<open>Invariant and frame\<close>

text \<open>
  The invariant of the data model: the address is set exactly when the machine is
  created, and a registered machine is a created one.
\<close>

definition resource_invariant :: "vm \<Rightarrow> bool" where
  "resource_invariant self \<longleftrightarrow>
     ((ip_addr self \<noteq> None) = p_created self) \<and> (p_subscribed self \<longrightarrow> p_created self)"

text \<open>What a method may do to the object: it keeps the invariant, and on a created
  machine it changes at most the registration flag.\<close>

definition vm_step :: "vm \<Rightarrow> vm \<Rightarrow> bool" where
  "vm_step self self' \<longleftrightarrow>
     (resource_invariant self \<longrightarrow> resource_invariant self') \<and>
     (p_created self \<longrightarrow> (\<exists>b. self' = self\<lparr>p_subscribed := b\<rparr>))"

definition steps_ok :: "(state \<Rightarrow> 'a result) \<Rightarrow> bool" where
  "steps_ok m \<longleftrightarrow> (\<forall>self tr r self' tr'. m (self, tr) = (r, self', tr') \<longrightarrow> vm_step self self')"

section \<open>The checks of the constructor\<close>



section \<open>Sequencing lemmas\<close>

lemma bindE_ret [simp]: "bindE (ret x) f s = f x s"
  by (simp add: bindE_def ret_def)

lemma bindE_throw [simp]: "bindE (throw err) f s = throw err s"
  by (simp add: bindE_def throw_def)

lemma bindE_Inr: "m s = (Inr x, s') \<Longrightarrow> bindE m f s = f x s'"
  by (simp add: bindE_def)

lemma bindE_Inl: "m s = (Inl err, s') \<Longrightarrow> bindE m f s = (Inl err, s')"
  by (simp add: bindE_def)

lemma lift_Inr [simp]: "lift (Inr x) s = (Inr x, s)"
  by (simp add: lift_def)

lemma lift_Inl [simp]: "lift (Inl err) s = (Inl err, s)"
  by (simp add: lift_def)

lemma run_created:
  "p_created self \<Longrightarrow>
     run e cmd (self, tr) =
       (Inr (ssh_command e tr cmd (ip_addr self)), self, tr @ [SshCommand cmd (ip_addr self)])"
  by (simp add: run_def ssh_cmd_def)

lemma run_not_created:
  "\<not> p_created self \<Longrightarrow>
     run e cmd (self, tr) =
       (Inl (VirtualMachineError
          ''The virtual machine should be created before running any ssh command''), self, tr)"
  by (simp add: run_def throw_def)

section \<open>Operations on a machine that is not created\<close>



section \<open>Construction\<close>



section \<open>The compliance-scan helper\<close>

text \<open>
  Claim C10. On a created machine, \<^verbatim>\<open>execute_foreman_scap_client\<close> with a policy id
  runs the scan and then reads the local \<^verbatim>\<open>result\<close>, which that branch never
  assigned: it raises \<^verbatim>\<open>UnboundLocalError\<close> whatever the remote commands return.
  Without a policy id (and with a lookup that printed at least one line) the final check
  reads the result of the lookup command: the outcome depends on the exit code of the
  lookup alone, so a scan that exits non-zero after a lookup that exited 0 raises
  nothing.
\<close>

theorem scap_client_result_check:
  "p_created self \<Longrightarrow>
     execute_foreman_scap_client e (Some policy_id) (self, tr) =
       (Inl UnboundLocalError, self,
        tr @ [SshCommand (''foreman_scap_client '' @ policy_id) (ip_addr self)]) \<and>
     (stdout (ssh_command e tr policy_lookup_command (ip_addr self)) = line # lines \<longrightarrow>
        execute_foreman_scap_client e None (self, tr) =
          (if return_code (ssh_command e tr policy_lookup_command (ip_addr self)) \<noteq> 0
           then Inl (VirtualMachineError ''Failed to execute foreman_scap_client run.'')
           else Inr (),
           self,
           tr @ [SshCommand policy_lookup_command (ip_addr self),
                 SshCommand (''foreman_scap_client '' @ line) (ip_addr self)]))"
  by (simp add: execute_foreman_scap_client_def bindE_def run_created py_index_def ret_def throw_def)

theorem scap_client_result_check_witness:
  "p_created example_created \<and>
   return_code (answer_scan_fails [] ''foreman_scap_client 1'' (Some ''192.0.2.5'')) = 1 \<and>
   execute_foreman_scap_client (example_env answer_scan_fails) (Some ''1'') (example_created, []) =
     (Inl UnboundLocalError, example_created,
      [SshCommand ''foreman_scap_client 1'' (Some ''192.0.2.5'')]) \<and>
   execute_foreman_scap_client (example_env answer_scan_fails) None (example_created, []) =
     (Inr (), example_created,
      [SshCommand policy_lookup_command (Some ''192.0.2.5''),
       SshCommand ''foreman_scap_client 1'' (Some ''192.0.2.5'')])"
proof -
  have h: "p_created example_created" by (simp add: example_created_def)
  have ip: "ip_addr example_created = Some ''192.0.2.5''" by (simp add: example_created_def)
  have a: "return_code (answer_scan_fails [] policy_lookup_command (Some ''192.0.2.5'')) = 0"
    by (simp add: answer_scan_fails_def policy_lookup_command_def)
  show ?thesis
    using h a scap_client_result_check [OF h, where e = "example_env answer_scan_fails"
        and policy_id = "''1''" and tr = "[]" and line = "''1''" and lines = "[]"]
    by (simp add: ip example_env_def answer_scan_fails_def)
qed

section \<open>Registration\<close>

lemma register_command_none:
  "register_command st org None None force releasever =
     Inl (VirtualMachineError
       (''Please provide either activation key or lifecycle ''
        @ ''environment name to successfully register a host''))"
  by (simp add: register_command_def)

lemma register_command_some:
  "activation_key \<noteq> None \<or> lce \<noteq> None \<Longrightarrow>
     \<exists>cmd. register_command st org activation_key lce force releasever = Inr cmd"
  by (auto simp: register_command_def Let_def)

text \<open>
  Claim C7, as amended. For every organisation, \<^verbatim>\<open>register_contenthost\<close> with neither
  an activation key nor a lifecycle environment raises \<^verbatim>\<open>VirtualMachineError\<close> and
  issues no remote command. With one of them, on a created machine it runs exactly one
  remote command, the registration command, sets \<^verbatim>\<open>_subscribed\<close> to true exactly when
  that command exits with 0 (it never clears the flag), and returns the command's result
  whatever the exit code; on a machine that is not created the guard of \<^verbatim>\<open>run\<close>
  raises \<^verbatim>\<open>VirtualMachineError\<close> and no remote command is issued.
\<close>

theorem register_contenthost_outcomes:
  "register_contenthost e org None None force releasever (self, tr) =
     (Inl (VirtualMachineError
        (''Please provide either activation key or lifecycle ''
         @ ''environment name to successfully register a host'')), self, tr) \<and>
   (activation_key \<noteq> None \<or> lce \<noteq> None \<longrightarrow>
      (\<exists>cmd. register_command (settings e) org activation_key lce force releasever = Inr cmd \<and>
         register_contenthost e org activation_key lce force releasever (self, tr) =
           (if p_created self
            then (Inr (ssh_command e tr cmd (ip_addr self)),
                  if return_code (ssh_command e tr cmd (ip_addr self)) = 0
                  then self\<lparr>p_subscribed := True\<rparr> else self,
                  tr @ [SshCommand cmd (ip_addr self)])
            else (Inl (VirtualMachineError
                    ''The virtual machine should be created before running any ssh command''),
                  self, tr))))"
proof (intro conjI impI)
  show "register_contenthost e org None None force releasever (self, tr) =
     (Inl (VirtualMachineError
        (''Please provide either activation key or lifecycle ''
         @ ''environment name to successfully register a host'')), self, tr)"
    by (simp add: register_contenthost_def register_command_none bindE_def)
next
  assume "activation_key \<noteq> None \<or> lce \<noteq> None"
  then obtain cmd where
    c: "register_command (settings e) org activation_key lce force releasever = Inr cmd"
    using register_command_some by blast
  show "\<exists>cmd. register_command (settings e) org activation_key lce force releasever = Inr cmd \<and>
         register_contenthost e org activation_key lce force releasever (self, tr) =
           (if p_created self
            then (Inr (ssh_command e tr cmd (ip_addr self)),
                  if return_code (ssh_command e tr cmd (ip_addr self)) = 0
                  then self\<lparr>p_subscribed := True\<rparr> else self,
                  tr @ [SshCommand cmd (ip_addr self)])
            else (Inl (VirtualMachineError
                    ''The virtual machine should be created before running any ssh command''),
                  self, tr))"
    by (rule exI [of _ cmd])
       (simp add: c register_contenthost_def bindE_def run_created run_not_created ret_def)
qed

theorem register_contenthost_outcomes_witness:
  "register_contenthost (example_env (answer_const 0 ping_reply)) ''Org1'' None None True None
       (example_created, []) =
     (Inl (VirtualMachineError
        ''Please provide either activation key or lifecycle environment name to successfully register a host''),
      example_created, []) \<and>
   register_contenthost (example_env (answer_const 0 ping_reply)) ''Org1'' (Some ''ak'') None True None
       (example_created, []) =
     (Inr \<lparr>return_code = 0, stdout = ping_reply, stderr = []\<rparr>,
      example_created\<lparr>p_subscribed := True\<rparr>,
      [SshCommand ''subscription-manager register --org Org1 --activationkey ak --force''
         (Some ''192.0.2.5'')])"
proof -
  have c: "register_command (settings (example_env (answer_const 0 ping_reply))) ''Org1'' (Some ''ak'') None True None
      = Inr ''subscription-manager register --org Org1 --activationkey ak --force''"
    by (simp add: register_command_def fmt_def)
  have h: "p_created example_created" "ip_addr example_created = Some ''192.0.2.5''"
    by (simp_all add: example_created_def)
  show ?thesis
    using c h register_contenthost_outcomes [where e = "example_env (answer_const 0 ping_reply)"
        and org = "''Org1''" and force = True and releasever = None and self = example_created
        and tr = "[]" and activation_key = "Some ''ak''" and lce = None]
    by (simp add: example_env_def answer_const_def)
qed

text \<open>On the machine that was never created, a registration with an activation key
  runs no command at all and raises.\<close>

theorem register_contenthost_not_created_counterexample:
  "register_contenthost (example_env (answer_const 0 ping_reply)) ''Org1'' (Some ''ak'') None True None
       (example_vm, []) =
     (Inl (VirtualMachineError
        ''The virtual machine should be created before running any ssh command''),
      example_vm, [])"
  by (simp add: register_contenthost_def register_command_def fmt_def bindE_def run_def
        example_vm_def throw_def)

section \<open>Creation\<close>

lemma py_split_no: "c \<notin> set s \<Longrightarrow> py_split c s = [s]"
proof -
  assume "c \<notin> set s"
  then have d: "dropWhile (\<lambda>x. x \<noteq> c) s = []" by auto
  show ?thesis by (subst py_split.simps, subst d) simp
qed

lemma py_split_yes:
  "c \<in> set s \<Longrightarrow>
     py_split c s =
       takeWhile (\<lambda>x. x \<noteq> c) s # py_split c (tl (dropWhile (\<lambda>x. x \<noteq> c) s))"
proof -
  assume "c \<in> set s"
  then have "dropWhile (\<lambda>x. x \<noteq> c) s \<noteq> []" by auto
  then obtain x rest where d: "dropWhile (\<lambda>x. x \<noteq> c) s = x # rest"
    by (cases "dropWhile (\<lambda>x. x \<noteq> c) s") auto
  show ?thesis by (subst py_split.simps, subst d, subst d) simp
qed

lemma py_split_hd: "\<exists>ws. py_split c s = takeWhile (\<lambda>x. x \<noteq> c) s # ws"
proof (cases "c \<in> set s")
  case True
  then show ?thesis by (simp add: py_split_yes)
next
  case False
  then have t: "takeWhile (\<lambda>x. x \<noteq> c) s = s" by auto
  show ?thesis by (subst t) (simp add: py_split_no [OF False])
qed

lemma takeWhile_twice:
  "takeWhile P (takeWhile Q xs) = takeWhile (\<lambda>x. Q x \<and> P x) xs"
  by (induction xs) auto

lemma parse_ip_addr_eq:
  "parse_ip_addr out =
     (if CHR ''('' \<in> set (concat out)
      then Inr (takeWhile (\<lambda>c. c \<noteq> CHR ''('' \<and> c \<noteq> CHR '')'')
                  (tl (dropWhile (\<lambda>c. c \<noteq> CHR ''('') (concat out))))
      else Inl IndexError)"
proof (cases "CHR ''('' \<in> set (concat out)")
  case False
  then show ?thesis
    by (simp add: parse_ip_addr_def py_split_no py_index_def)
next
  case True
  let ?rest = "tl (dropWhile (\<lambda>c. c \<noteq> CHR ''('') (concat out))"
  obtain ws where ws: "py_split CHR ''('' ?rest = takeWhile (\<lambda>c. c \<noteq> CHR ''('') ?rest # ws"
    using py_split_hd by blast
  obtain vs where vs: "py_split CHR '')'' (takeWhile (\<lambda>c. c \<noteq> CHR ''('') ?rest)
      = takeWhile (\<lambda>c. c \<noteq> CHR '')'') (takeWhile (\<lambda>c. c \<noteq> CHR ''('') ?rest) # vs"
    using py_split_hd by blast
  show ?thesis
    using True
    by (simp add: parse_ip_addr_def py_split_yes [OF True] ws vs py_index_def takeWhile_twice)
qed

lemma parse_ip_addr_token:
  assumes "concat out = pre @ ''('' @ addr @ '')'' @ post"
    and "CHR ''('' \<notin> set pre" and "CHR ''('' \<notin> set addr" and "CHR '')'' \<notin> set addr"
  shows "parse_ip_addr out = Inr addr"
proof -
  have "\<forall>x\<in>set pre. x \<noteq> CHR ''(''" using assms(2) by auto
  then have d: "dropWhile (\<lambda>c. c \<noteq> CHR ''('') (concat out) = ''('' @ addr @ '')'' @ post"
    using assms(1) by (simp add: dropWhile_append3)
  have "\<forall>x\<in>set addr. x \<noteq> CHR ''('' \<and> x \<noteq> CHR '')''" using assms(3,4) by auto
  then have t: "takeWhile (\<lambda>c. c \<noteq> CHR ''('' \<and> c \<noteq> CHR '')'') (addr @ '')'' @ post) = addr"
    by (simp add: takeWhile_append2)
  have m: "CHR ''('' \<in> set (concat out)" by (simp add: assms(1))
  have "parse_ip_addr out =
      Inr (takeWhile (\<lambda>c. c \<noteq> CHR ''('' \<and> c \<noteq> CHR '')'')
             (tl (dropWhile (\<lambda>c. c \<noteq> CHR ''('') (concat out))))"
    using m by (simp only: parse_ip_addr_eq if_True)
  also have "\<dots> = Inr addr" unfolding d using t by simp
  finally show ?thesis .
qed

lemma create_not_created:
  "\<not> p_created self \<Longrightarrow>
   create e (self, tr) =
     (case snap_guest_command self of
        Inl err \<Rightarrow> (Inl err, self, tr)
      | Inr command \<Rightarrow>
          let ps = Some (provisioning_server self);
              r1 = ssh_command e tr command ps;
              tr1 = tr @ [SshCommand command ps]
          in if return_code r1 \<noteq> 0
             then (Inl (VirtualMachineError (''Failed to run snap-guest: '' @ stderr r1)), self, tr1)
             else
               let r2 = ssh_command e (tr1 @ [Sleep 60]) (ping_command self) ps;
                   tr3 = tr1 @ [Sleep 60, SshCommand (ping_command self) ps]
               in if return_code r2 \<noteq> 0
                  then (Inl (VirtualMachineError
                          ''Failed to fetch virtual machine IP address information''), self, tr3)
                  else (case parse_ip_addr (stdout r2) of
                          Inl err \<Rightarrow> (Inl err, self, tr3)
                        | Inr ip \<Rightarrow> (Inr (), self\<lparr>ip_addr := Some ip, p_created := True\<rparr>, tr3)))"
  by (simp add: create_def bindE_def ssh_cmd_def time_sleep_def throw_def Let_def
        split: sum.splits)

lemma create_created: "p_created (fst s) \<Longrightarrow> create e s = (Inr (), s)"
  by (simp add: create_def ret_def)

lemma create_Inr_created:
  "create e s = (Inr u, s') \<Longrightarrow> p_created (fst s')"
proof (cases "p_created (fst s)")
  case True
  assume "create e s = (Inr u, s')"
  with True show ?thesis by (simp add: create_created)
next
  case False
  assume c: "create e s = (Inr u, s')"
  obtain self tr where s: "s = (self, tr)" by (cases s)
  from False c show ?thesis
    unfolding s
    by (auto simp: create_not_created Let_def split: sum.splits if_splits)
qed

lemma example_create:
  "create (example_env (answer_const 0 ping_reply)) (example_vm, []) =
     (Inr (), example_created, example_trace)"
  by code_simp

lemma example_snap_guest_command:
  "snap_guest_command example_vm =
     Inr (''snap-guest -b rhel71-base -t vm7.example.com -m 512 -c 1 ''
                  @ ''-n bridge=br0 -f -p /var/lib/libvirt/images'')"
  by code_simp

text \<open>
  Claim C5. \<^verbatim>\<open>create\<close> is idempotent: two calls in a row (the second runs only when the
  first returned) do exactly what one call does, to the object and to the event log. On
  a created machine \<^verbatim>\<open>create\<close> returns at once, issues nothing and changes no field.
  When the calls start from a machine that is not created and the first returns, the
  events of both together are the provisioning command, once, the sleep and the probe,
  and the second call leaves the object, the address included, and the log as they are.
\<close>

theorem create_idempotent:
  "bindE (create e) (\<lambda>_. create e) s = create e s \<and>
   (p_created (fst s) \<longrightarrow> create e s = (Inr (), s)) \<and>
   (\<not> p_created self \<and> create e (self, tr) = (Inr u, self', tr') \<longrightarrow>
      (\<exists>command.
         snap_guest_command self = Inr command \<and>
         tr' = tr @ [SshCommand command (Some (provisioning_server self)), Sleep 60,
                     SshCommand (ping_command self) (Some (provisioning_server self))] \<and>
         bindE (create e) (\<lambda>_. create e) (self, tr) = (Inr (), self', tr') \<and>
         create e (self', tr') = (Inr (), self', tr')))"
proof (intro conjI impI)
  show twice: "bindE (create e) (\<lambda>_. create e) s = create e s" for s
  proof -
    obtain r s' where Pair: "create e s = (r, s')" by (cases "create e s")
    show ?thesis
    proof (cases r)
      case (Inl err)
      with Pair show ?thesis by (simp add: bindE_def)
    next
      case (Inr u)
      with Pair have "p_created (fst s')" using create_Inr_created by blast
      with Pair Inr show ?thesis by (simp add: bindE_def create_created)
    qed
  qed
  show "create e s = (Inr (), s)" if "p_created (fst s)"
    using that by (rule create_created)
  assume a: "\<not> p_created self \<and> create e (self, tr) = (Inr u, self', tr')"
  then have c: "create e (self, tr) = (Inr (), self', tr')" by simp
  have p: "p_created (fst (self', tr'))" using c create_Inr_created by blast
  from a obtain command where
    k: "snap_guest_command self = Inr command"
    by (cases "snap_guest_command self") (auto simp: create_not_created)
  from a k have t: "tr' = tr @ [SshCommand command (Some (provisioning_server self)), Sleep 60,
                     SshCommand (ping_command self) (Some (provisioning_server self))]"
    by (auto simp: create_not_created Let_def split: sum.splits if_splits)
  show "\<exists>command.
         snap_guest_command self = Inr command \<and>
         tr' = tr @ [SshCommand command (Some (provisioning_server self)), Sleep 60,
                     SshCommand (ping_command self) (Some (provisioning_server self))] \<and>
         bindE (create e) (\<lambda>_. create e) (self, tr) = (Inr (), self', tr') \<and>
         create e (self', tr') = (Inr (), self', tr')"
    using k t c p twice [of "(self, tr)"] by (simp add: create_created)
qed

theorem create_idempotent_witness:
  "\<not> p_created example_vm \<and>
   create (example_env (answer_const 0 ping_reply)) (example_vm, []) =
     (Inr (), example_created, example_trace) \<and>
   bindE (create (example_env (answer_const 0 ping_reply)))
      (\<lambda>_. create (example_env (answer_const 0 ping_reply))) (example_vm, []) =
     (Inr (), example_created, example_trace) \<and>
   create (example_env (answer_const 0 ping_reply)) (example_created, example_trace) =
     (Inr (), example_created, example_trace)"
proof -
  have h: "\<not> p_created example_vm" by (simp add: example_vm_def)
  show ?thesis
    using h example_create
      create_idempotent [where e = "example_env (answer_const 0 ping_reply)"
        and self = example_vm and tr = "[]" and u = "()" and self' = example_created
        and tr' = example_trace and s = "(example_vm, [])"]
    by auto
qed

text \<open>
  Claim C2, as amended. When provisioning and probe both exit with 0, \<^verbatim>\<open>create\<close>
  succeeds exactly when the joined probe output contains an opening parenthesis, and
  then the address is the text after the first opening parenthesis up to the next
  opening or closing parenthesis, or to the end of the output when none follows. So an
  output \<^verbatim>\<open>pre(addr)post\<close> whose \<open>pre\<close> has no opening parenthesis and whose
  \<open>addr\<close> has no parenthesis yields \<open>addr\<close>. With no opening parenthesis in the output
  \<^verbatim>\<open>create\<close> raises after the probe and leaves the machine not created.
\<close>

theorem create_resolved_address:
  assumes "\<not> p_created self"
    and "snap_guest_command self = Inr command"
    and "return_code (ssh_command e tr command (Some (provisioning_server self))) = 0"
    and "probe = ssh_command e (tr @ [SshCommand command (Some (provisioning_server self)), Sleep 60])
                   (ping_command self) (Some (provisioning_server self))"
    and "return_code probe = 0"
    and "tr_end = tr @ [SshCommand command (Some (provisioning_server self)), Sleep 60,
                     SshCommand (ping_command self) (Some (provisioning_server self))]"
  shows
    "(if CHR ''('' \<in> set (concat (stdout probe))
      then create e (self, tr) =
             (Inr (),
              self\<lparr>ip_addr := Some (takeWhile (\<lambda>c. c \<noteq> CHR ''('' \<and> c \<noteq> CHR '')'')
                                  (tl (dropWhile (\<lambda>c. c \<noteq> CHR ''('') (concat (stdout probe))))),
                   p_created := True\<rparr>,
              tr_end)
      else (\<exists>err. create e (self, tr) = (Inl err, self, tr_end))) \<and>
     (concat (stdout probe) = pre @ ''('' @ addr @ '')'' @ post \<and> CHR ''('' \<notin> set pre \<and>
      CHR ''('' \<notin> set addr \<and> CHR '')'' \<notin> set addr \<longrightarrow>
        create e (self, tr) = (Inr (), self\<lparr>ip_addr := Some addr, p_created := True\<rparr>, tr_end))"
proof -
  have c: "create e (self, tr) =
      (case parse_ip_addr (stdout probe) of
         Inl err \<Rightarrow> (Inl err, self, tr_end)
       | Inr ip \<Rightarrow> (Inr (), self\<lparr>ip_addr := Some ip, p_created := True\<rparr>, tr_end))"
    unfolding assms(4) assms(6)
    using assms(1,2,3) assms(5) [unfolded assms(4)]
    by (simp add: create_not_created Let_def)
  have one: "if CHR ''('' \<in> set (concat (stdout probe))
      then create e (self, tr) =
             (Inr (),
              self\<lparr>ip_addr := Some (takeWhile (\<lambda>c. c \<noteq> CHR ''('' \<and> c \<noteq> CHR '')'')
                                  (tl (dropWhile (\<lambda>c. c \<noteq> CHR ''('') (concat (stdout probe))))),
                   p_created := True\<rparr>,
              tr_end)
      else (\<exists>err. create e (self, tr) = (Inl err, self, tr_end))"
    by (simp add: c parse_ip_addr_eq)
  have two: "create e (self, tr) = (Inr (), self\<lparr>ip_addr := Some addr, p_created := True\<rparr>, tr_end)"
    if "concat (stdout probe) = pre @ ''('' @ addr @ '')'' @ post \<and> CHR ''('' \<notin> set pre \<and>
      CHR ''('' \<notin> set addr \<and> CHR '')'' \<notin> set addr"
    using that by (simp add: c parse_ip_addr_token [of "stdout probe" pre addr post])
  from one two show ?thesis by blast
qed

theorem create_resolved_address_witness:
  "\<not> p_created example_vm \<and>
   concat ping_reply = ''PING vm7.local '' @ ''('' @ ''192.0.2.5'' @ '')'' @ '' 56(84) bytes of data.'' \<and>
   create (example_env (answer_const 0 ping_reply)) (example_vm, []) =
     (Inr (), example_vm\<lparr>ip_addr := Some ''192.0.2.5'', p_created := True\<rparr>, example_trace)"
proof -
  let ?e = "example_env (answer_const 0 ping_reply)"
  let ?probe = "\<lparr>return_code = 0, stdout = ping_reply, stderr = []\<rparr>"
  let ?cmd = "''snap-guest -b rhel71-base -t vm7.example.com -m 512 -c 1 ''
                  @ ''-n bridge=br0 -f -p /var/lib/libvirt/images''"
  have h: "\<not> p_created example_vm" by (simp add: example_vm_def)
  have a: "ssh_command ?e = answer_const 0 ping_reply" by (simp add: example_env_def)
  have r1: "return_code (ssh_command ?e [] ?cmd (Some (provisioning_server example_vm))) = 0"
    unfolding a by (simp add: answer_const_def)
  have p: "?probe = ssh_command ?e
      ([] @ [SshCommand ?cmd (Some (provisioning_server example_vm)), Sleep 60])
      (ping_command example_vm) (Some (provisioning_server example_vm))"
    unfolding a by (simp add: answer_const_def)
  have r2: "return_code ?probe = 0" by simp
  have t: "example_trace = [] @ [SshCommand ?cmd (Some (provisioning_server example_vm)), Sleep 60,
      SshCommand (ping_command example_vm) (Some (provisioning_server example_vm))]"
    by (simp add: example_trace_def example_vm_def ping_command_def)
  have k: "concat ping_reply = ''PING vm7.local '' @ ''('' @ ''192.0.2.5'' @ '')'' @ '' 56(84) bytes of data.''"
    by (simp add: ping_reply_def)
  have k': "concat (stdout ?probe) = ''PING vm7.local '' @ ''('' @ ''192.0.2.5'' @ '')'' @ '' 56(84) bytes of data.'' \<and>
      CHR ''('' \<notin> set ''PING vm7.local '' \<and> CHR ''('' \<notin> set ''192.0.2.5'' \<and>
      CHR '')'' \<notin> set ''192.0.2.5''"
    by (simp add: ping_reply_def)
  have c: "create ?e (example_vm, []) =
     (Inr (), example_vm\<lparr>ip_addr := Some ''192.0.2.5'', p_created := True\<rparr>, example_trace)"
    by (rule mp [OF conjunct2 [OF create_resolved_address
          [OF h example_snap_guest_command r1 p r2 t]] k'])
  from h k c show ?thesis by blast
qed

text \<open>Three probe outputs. The first has an opening parenthesis that is never closed, so
  no parenthesised token, yet \<^verbatim>\<open>create\<close> succeeds with the rest of the line as the
  address. In the second the text between the first opening parenthesis and the
  following closing one is \<^verbatim>\<open>b(c\<close>, and the address is \<^verbatim>\<open>b\<close>. The third has no
  parenthesis at all, and what is raised is the \<^verbatim>\<open>IndexError\<close> of the list index, not
  the module's \<^verbatim>\<open>VirtualMachineError\<close>.\<close>

theorem create_address_parsing_counterexample:
  "create (example_env (answer_const 0 [''PING vm7.local (192.0.2.5 unreachable''])) (example_vm, []) =
     (Inr (), example_vm\<lparr>ip_addr := Some ''192.0.2.5 unreachable'', p_created := True\<rparr>,
      example_trace) \<and>
   create (example_env (answer_const 0 [''a(b(c)d''])) (example_vm, []) =
     (Inr (), example_vm\<lparr>ip_addr := Some ''b'', p_created := True\<rparr>, example_trace) \<and>
   create (example_env (answer_const 0 [''no address here''])) (example_vm, []) =
     (Inl IndexError, example_vm, example_trace)"
  by code_simp

section \<open>Destruction\<close>

lemma create_target_image:
  "\<not> p_created self \<Longrightarrow> create e (self, tr) = (Inr u, self', tr') \<Longrightarrow>
     \<exists>ti ip. target_image self = Inr ti \<and> self' = self\<lparr>ip_addr := Some ip, p_created := True\<rparr>"
  by (auto simp: create_not_created snap_guest_command_def Let_def
        split: sum.splits if_splits)

lemma domain_frame:
  "domain (self\<lparr>ip_addr := a, p_created := b, p_subscribed := c\<rparr>) = domain self"
  by (simp add: domain_def domain_message_def split: option.splits sum.splits)

lemma hostname_frame:
  "hostname (self\<lparr>ip_addr := a, p_created := b, p_subscribed := c\<rparr>) = hostname self"
  by (simp add: hostname_def domain_frame split: sum.splits)

lemma target_image_frame:
  "target_image (self\<lparr>ip_addr := a, p_created := b, p_subscribed := c\<rparr>) = target_image self"
  by (simp add: target_image_def hostname_frame)

lemma destroy_not_created: "\<not> p_created self \<Longrightarrow> destroy e (self, tr) = (Inr (), self, tr)"
  by (simp add: destroy_def ret_def)

lemma destroy_created:
  "p_created self \<Longrightarrow> target_image self = Inr ti \<Longrightarrow>
   os_path_join (image_dir self) (ti @ ''.img'') = Inr path \<Longrightarrow>
   destroy e (self, tr) =
     (Inr (), self,
      tr @ (if p_subscribed self
            then [SshCommand ''subscription-manager unregister'' (ip_addr self)] else [])
         @ [SshCommand (''virsh destroy '' @ ti) (Some (provisioning_server self)),
            SshCommand (''virsh undefine '' @ ti) (Some (provisioning_server self)),
            SshCommand (''rm '' @ path) (Some (provisioning_server self))])"
  by (simp add: destroy_def unregister_def bindE_def run_created ssh_cmd_def ret_def)

lemma os_path_join_Some: "\<exists>path. os_path_join (Some dir) b = Inr path"
  by (simp add: os_path_join_def)


lemma example_create_then_fail:
  "create (example_env answer_ok_then_fail) (example_vm, []) =
     (Inr (), example_created, example_trace)"
  by code_simp

lemma example_target_image: "target_image example_vm = Inr ''vm7.example.com''"
  by code_simp

lemma example_image_path:
  "os_path_join (Some ''/var/lib/libvirt/images'') (''vm7.example.com'' @ ''.img'') =
     Inr ''/var/lib/libvirt/images/vm7.example.com.img''"
  by code_simp

text \<open>
  Claim C1, as amended. \<^verbatim>\<open>destroy\<close> on a machine that is not created issues nothing
  and returns. After a \<^verbatim>\<open>create\<close> that returned, on a machine with an image
  directory, and whatever the registration flag and the log are by then, \<^verbatim>\<open>destroy\<close>
  runs the unregistration on the machine when the flag is set and then, on the
  provisioning server and in this order, \<^verbatim>\<open>virsh destroy\<close>, \<^verbatim>\<open>virsh undefine\<close> and
  the removal of the image; it returns whatever these commands answer (the equation
  holds for every remote side), and it changes no field of the object: the machine still
  counts as created.
\<close>

theorem destroy_outcomes:
  "(\<not> p_created self \<longrightarrow> destroy e (self, tr) = (Inr (), self, tr)) \<and>
   (\<not> p_created fresh \<and> create e (fresh, tr_a) = (Inr u, made, tr_b) \<and>
    image_dir fresh = Some dir \<longrightarrow>
      (\<exists>ti path.
         target_image fresh = Inr ti \<and> os_path_join (Some dir) (ti @ ''.img'') = Inr path \<and>
         (\<forall>b tr_c.
            destroy e (made\<lparr>p_subscribed := b\<rparr>, tr_c) =
              (Inr (), made\<lparr>p_subscribed := b\<rparr>,
               tr_c @ (if b then [SshCommand ''subscription-manager unregister'' (ip_addr made)]
                      else [])
                   @ [SshCommand (''virsh destroy '' @ ti) (Some (provisioning_server fresh)),
                      SshCommand (''virsh undefine '' @ ti) (Some (provisioning_server fresh)),
                      SshCommand (''rm '' @ path) (Some (provisioning_server fresh))]) \<and>
            p_created (made\<lparr>p_subscribed := b\<rparr>) \<and>
            lifecycleState (made\<lparr>p_subscribed := b\<rparr>) = Created)))"
proof (intro conjI impI)
  assume "\<not> p_created self"
  then show "destroy e (self, tr) = (Inr (), self, tr)" by (rule destroy_not_created)
next
  assume a: "\<not> p_created fresh \<and> create e (fresh, tr_a) = (Inr u, made, tr_b) \<and>
    image_dir fresh = Some dir"
  then obtain ti ip where ti: "target_image fresh = Inr ti"
    and s1: "made = fresh\<lparr>ip_addr := Some ip, p_created := True\<rparr>"
    using create_target_image by blast
  obtain path where path: "os_path_join (Some dir) (ti @ ''.img'') = Inr path"
    using os_path_join_Some by blast
  have d: "destroy e (made\<lparr>p_subscribed := b\<rparr>, tr_c) =
              (Inr (), made\<lparr>p_subscribed := b\<rparr>,
               tr_c @ (if b then [SshCommand ''subscription-manager unregister'' (ip_addr made)]
                      else [])
                   @ [SshCommand (''virsh destroy '' @ ti) (Some (provisioning_server fresh)),
                      SshCommand (''virsh undefine '' @ ti) (Some (provisioning_server fresh)),
                      SshCommand (''rm '' @ path) (Some (provisioning_server fresh))])" for b tr_c
  proof -
    let ?s = "made\<lparr>p_subscribed := b\<rparr>"
    have c: "p_created ?s" by (simp add: s1)
    have t: "target_image ?s = Inr ti"
      unfolding s1 using ti by (simp add: target_image_frame)
    have i: "os_path_join (image_dir ?s) (ti @ ''.img'') = Inr path"
      using a path by (simp add: s1)
    show ?thesis
      using destroy_created [OF c t i, of e tr_c] by (simp add: s1)
  qed
  have l: "p_created (made\<lparr>p_subscribed := b\<rparr>) \<and>
           lifecycleState (made\<lparr>p_subscribed := b\<rparr>) = Created" for b
    by (simp add: s1 lifecycleState_def)
  show "\<exists>ti path.
         target_image fresh = Inr ti \<and> os_path_join (Some dir) (ti @ ''.img'') = Inr path \<and>
         (\<forall>b tr_c.
            destroy e (made\<lparr>p_subscribed := b\<rparr>, tr_c) =
              (Inr (), made\<lparr>p_subscribed := b\<rparr>,
               tr_c @ (if b then [SshCommand ''subscription-manager unregister'' (ip_addr made)]
                      else [])
                   @ [SshCommand (''virsh destroy '' @ ti) (Some (provisioning_server fresh)),
                      SshCommand (''virsh undefine '' @ ti) (Some (provisioning_server fresh)),
                      SshCommand (''rm '' @ path) (Some (provisioning_server fresh))]) \<and>
            p_created (made\<lparr>p_subscribed := b\<rparr>) \<and>
            lifecycleState (made\<lparr>p_subscribed := b\<rparr>) = Created)"
    using ti path d l by blast
qed

theorem destroy_outcomes_witness:
  "destroy (example_env answer_ok_then_fail) (example_vm, []) = (Inr (), example_vm, []) \<and>
   create (example_env answer_ok_then_fail) (example_vm, []) =
     (Inr (), example_created, example_trace) \<and>
   return_code (answer_ok_then_fail example_trace ''virsh destroy vm7.example.com''
                  (Some ''prov.example.com'')) = 1 \<and>
   destroy (example_env answer_ok_then_fail) (example_created\<lparr>p_subscribed := True\<rparr>, example_trace) =
     (Inr (), example_created\<lparr>p_subscribed := True\<rparr>,
      example_trace @ [SshCommand ''subscription-manager unregister'' (Some ''192.0.2.5'')]
        @ example_destroy_trace)"
proof -
  let ?e = "example_env answer_ok_then_fail"
  have h: "\<not> p_created example_vm" by (simp add: example_vm_def)
  have i: "image_dir example_vm = Some ''/var/lib/libvirt/images''" by (simp add: example_vm_def)
  note th = destroy_outcomes [where e = ?e and self = example_vm and tr = "[]"
      and fresh = example_vm and tr_a = "[]" and u = "()" and made = example_created
      and tr_b = example_trace and dir = "''/var/lib/libvirt/images''"]
  have one: "destroy ?e (example_vm, []) = (Inr (), example_vm, [])"
    using th h by blast
  from th h i example_create_then_fail obtain ti path where
    ti: "target_image example_vm = Inr ti"
    and path: "os_path_join (Some ''/var/lib/libvirt/images'') (ti @ ''.img'') = Inr path"
    and d: "\<And>b tr_c. destroy ?e (example_created\<lparr>p_subscribed := b\<rparr>, tr_c) =
              (Inr (), example_created\<lparr>p_subscribed := b\<rparr>,
               tr_c @ (if b then [SshCommand ''subscription-manager unregister'' (ip_addr example_created)]
                      else [])
                   @ [SshCommand (''virsh destroy '' @ ti) (Some (provisioning_server example_vm)),
                      SshCommand (''virsh undefine '' @ ti) (Some (provisioning_server example_vm)),
                      SshCommand (''rm '' @ path) (Some (provisioning_server example_vm))])"
    by blast
  have ti': "ti = ''vm7.example.com''" using ti example_target_image by simp
  have path': "path = ''/var/lib/libvirt/images/vm7.example.com.img''"
    using path example_image_path unfolding ti' by simp
  have two: "destroy ?e (example_created\<lparr>p_subscribed := True\<rparr>, example_trace) =
     (Inr (), example_created\<lparr>p_subscribed := True\<rparr>,
      example_trace @ [SshCommand ''subscription-manager unregister'' (Some ''192.0.2.5'')]
        @ example_destroy_trace)"
    using d [of True example_trace] unfolding ti' path'
    by (simp add: example_destroy_trace_def example_created_def example_vm_def)
  have three: "return_code (answer_ok_then_fail example_trace ''virsh destroy vm7.example.com''
                  (Some ''prov.example.com'')) = 1"
    by (simp add: answer_ok_then_fail_def example_trace_def)
  from one example_create_then_fail three two show ?thesis by blast
qed

text \<open>After \<^verbatim>\<open>create\<close> and a \<^verbatim>\<open>destroy\<close> all of whose commands exit with 1, the
  object is the one \<^verbatim>\<open>create\<close> left: \<^verbatim>\<open>_created\<close> is set, the address is set, and
  \<^verbatim>\<open>run\<close> still passes its guard and issues its command.\<close>

theorem destroy_not_destroyed_counterexample:
  "create (example_env answer_ok_then_fail) (example_vm, []) =
     (Inr (), example_created, example_trace) \<and>
   destroy (example_env answer_ok_then_fail) (example_created, example_trace) =
     (Inr (), example_created, example_trace @ example_destroy_trace) \<and>
   p_created example_created \<and> ip_addr example_created = Some ''192.0.2.5'' \<and>
   lifecycleState example_created = Created \<and>
   lifecycleState example_created \<noteq> Destroyed \<and>
   run (example_env answer_ok_then_fail) ''true'' (example_created, example_trace @ example_destroy_trace) =
     (Inr \<lparr>return_code = 1, stdout = ping_reply, stderr = []\<rparr>, example_created,
      example_trace @ example_destroy_trace @ [SshCommand ''true'' (Some ''192.0.2.5'')])"
  by code_simp

section \<open>The invariant of the data model\<close>

lemma vm_step_refl: "vm_step self self"
proof -
  have "self = self\<lparr>p_subscribed := p_subscribed self\<rparr>" by simp
  then show ?thesis unfolding vm_step_def by blast
qed

lemma vm_step_trans:
  assumes "vm_step a b" and "vm_step b c"
  shows "vm_step a c"
proof -
  have "\<exists>y. c = a\<lparr>p_subscribed := y\<rparr>" if "p_created a"
  proof -
    from that assms(1) obtain x where b: "b = a\<lparr>p_subscribed := x\<rparr>"
      unfolding vm_step_def by blast
    then have "p_created b" using that by simp
    with assms(2) obtain y where "c = b\<lparr>p_subscribed := y\<rparr>"
      unfolding vm_step_def by blast
    then have "c = a\<lparr>p_subscribed := y\<rparr>" by (simp add: b)
    then show ?thesis by blast
  qed
  then show ?thesis using assms unfolding vm_step_def by blast
qed

lemma steps_okI: "(\<And>s r s'. m s = (r, s') \<Longrightarrow> fst s' = fst s) \<Longrightarrow> steps_ok m"
  unfolding steps_ok_def using vm_step_refl by fastforce

lemma steps_ok_ret: "steps_ok (ret x)"
  by (rule steps_okI) (auto simp: ret_def)

lemma steps_ok_throw: "steps_ok (throw err)"
  by (rule steps_okI) (auto simp: throw_def)

lemma steps_ok_lift: "steps_ok (lift v)"
  by (rule steps_okI) (auto simp: lift_def split: sum.splits)

lemma steps_ok_ssh_cmd: "steps_ok (ssh_cmd e cmd host)"
  by (rule steps_okI) (auto simp: ssh_cmd_def)

lemma steps_ok_time_sleep: "steps_ok (time_sleep n)"
  by (rule steps_okI) (auto simp: time_sleep_def)

lemma steps_ok_run: "steps_ok (run e cmd)"
  by (rule steps_okI) (auto simp: run_def throw_def ssh_cmd_def split: if_splits)

lemma steps_ok_get: "steps_ok (get rp lp)"
  by (rule steps_okI) (auto simp: get_def throw_def ssh_download_file_def split: if_splits)

lemma steps_ok_put: "steps_ok (put lp rp)"
  by (rule steps_okI) (auto simp: put_def throw_def ssh_upload_file_def split: if_splits)

lemma steps_ok_install_katello_ca: "steps_ok (install_katello_ca e)"
  by (rule steps_okI) (auto simp: install_katello_ca_def split: if_splits)

lemma steps_ok_remove_katello_ca: "steps_ok (remove_katello_ca e)"
  by (rule steps_okI) (auto simp: remove_katello_ca_def split: if_splits)

lemma steps_ok_bindE:
  assumes "steps_ok m" and "\<And>x. steps_ok (f x)"
  shows "steps_ok (bindE m f)"
  unfolding steps_ok_def
proof (intro allI impI)
  fix self tr r self' tr'
  assume b: "bindE m f (self, tr) = (r, self', tr')"
  obtain r1 self1 tr1 where m: "m (self, tr) = (r1, self1, tr1)"
    by (cases "m (self, tr)") auto
  have s1: "vm_step self self1" using assms(1) m unfolding steps_ok_def by blast
  show "vm_step self self'"
  proof (cases r1)
    case (Inl err)
    with b m have "self' = self1" by (simp add: bindE_def)
    with s1 show ?thesis by simp
  next
    case (Inr x)
    with b m have "f x (self1, tr1) = (r, self', tr')" by (simp add: bindE_def)
    then have "vm_step self1 self'" using assms(2) [of x] unfolding steps_ok_def by blast
    with s1 show ?thesis by (rule vm_step_trans)
  qed
qed

lemma steps_ok_if: "steps_ok m \<Longrightarrow> steps_ok m' \<Longrightarrow> steps_ok (if c then m else m')"
  by simp

lemma steps_ok_self:
  assumes "\<And>s0. steps_ok (M s0)" and "\<And>s. f s = M s s"
  shows "steps_ok f"
  unfolding steps_ok_def
proof (intro allI impI)
  fix self tr r self' tr'
  assume "f (self, tr) = (r, self', tr')"
  then have "M (self, tr) (self, tr) = (r, self', tr')" by (simp add: assms(2))
  then show "vm_step self self'" using assms(1) unfolding steps_ok_def by blast
qed

lemmas steps_ok_intros =
  steps_ok_bindE steps_ok_ret steps_ok_throw steps_ok_lift steps_ok_ssh_cmd steps_ok_time_sleep
  steps_ok_run steps_ok_get steps_ok_put steps_ok_install_katello_ca steps_ok_remove_katello_ca

lemma steps_ok_unregister: "steps_ok (unregister e)"
  by (simp add: unregister_def steps_ok_run)

lemma steps_ok_destroy: "steps_ok (destroy e)"
proof -
  let ?M = "\<lambda>s0.
     if \<not> p_created (fst s0) then ret ()
      else
        bindE (if p_subscribed (fst s0) then bindE (unregister e) (\<lambda>_. ret ()) else ret ()) (\<lambda>_.
        bindE (lift (target_image (fst s0))) (\<lambda>ti.
        bindE (ssh_cmd e (''virsh destroy '' @ ti) (Some (provisioning_server (fst s0)))) (\<lambda>_.
        bindE (lift (target_image (fst s0))) (\<lambda>ti.
        bindE (ssh_cmd e (''virsh undefine '' @ ti) (Some (provisioning_server (fst s0)))) (\<lambda>_.
        bindE (lift (target_image (fst s0))) (\<lambda>ti.
        bindE (lift (os_path_join (image_dir (fst s0)) (ti @ ''.img''))) (\<lambda>path.
        bindE (ssh_cmd e (''rm '' @ path) (Some (provisioning_server (fst s0)))) (\<lambda>_.
          ret ()))))))))"
  have one: "steps_ok (?M s0)" for s0
    by (intro steps_ok_if steps_ok_intros steps_ok_unregister)
  have two: "destroy e s = ?M s s" for s
    by (simp add: destroy_def)
  show ?thesis by (rule steps_ok_self [of ?M, OF one two])
qed

lemma steps_ok_create: "steps_ok (create e)"
  unfolding steps_ok_def
proof (intro allI impI)
  fix self tr r self' tr'
  assume c: "create e (self, tr) = (r, self', tr')"
  show "vm_step self self'"
  proof (cases "p_created self")
    case True
    with c have "self' = self" by (simp add: create_created)
    then show ?thesis by (simp add: vm_step_refl)
  next
    case False
    with c have "self' = self \<or> (\<exists>ip. self' = self\<lparr>ip_addr := Some ip, p_created := True\<rparr>)"
      by (auto simp: create_not_created Let_def split: sum.splits if_splits)
    then show ?thesis
    proof
      assume "self' = self"
      then show ?thesis by (simp add: vm_step_refl)
    next
      assume "\<exists>ip. self' = self\<lparr>ip_addr := Some ip, p_created := True\<rparr>"
      then show ?thesis using False by (auto simp: vm_step_def resource_invariant_def)
    qed
  qed
qed

lemma steps_ok_register_contenthost:
  "steps_ok (register_contenthost e org ak lce force rv)"
  unfolding steps_ok_def
proof (intro allI impI)
  fix self tr r self' tr'
  assume c: "register_contenthost e org ak lce force rv (self, tr) = (r, self', tr')"
  show "vm_step self self'"
  proof (cases "register_command (settings e) org ak lce force rv")
    case (Inl err)
    with c have "self' = self" by (simp add: register_contenthost_def bindE_def)
    then show ?thesis by (simp add: vm_step_refl)
  next
    case (Inr cmd)
    show ?thesis
    proof (cases "p_created self")
      case False
      with c Inr have "self' = self"
        by (simp add: register_contenthost_def bindE_def run_not_created)
      then show ?thesis by (simp add: vm_step_refl)
    next
      case True
      with c Inr have "self' = self \<or> self' = self\<lparr>p_subscribed := True\<rparr>"
        by (auto simp: register_contenthost_def bindE_def run_created ret_def split: if_splits)
      then show ?thesis
      proof
        assume "self' = self"
        then show ?thesis by (simp add: vm_step_refl)
      next
        assume n: "self' = self\<lparr>p_subscribed := True\<rparr>"
        then have "\<exists>b. self' = self\<lparr>p_subscribed := b\<rparr>" by blast
        moreover have "resource_invariant self \<longrightarrow> resource_invariant self'"
          using True n by (simp add: resource_invariant_def)
        ultimately show ?thesis unfolding vm_step_def by blast
      qed
    qed
  qed
qed

lemma steps_ok_enter: "steps_ok (enter e)"
  by (simp add: enter_def steps_ok_bindE steps_ok_create steps_ok_ret)

lemma steps_ok_configure_rhel_repo: "steps_ok (configure_rhel_repo e r)"
  unfolding configure_rhel_repo_def by (intro steps_ok_intros)

lemma steps_ok_download_install_rpm: "steps_ok (download_install_rpm e u p)"
  unfolding download_install_rpm_def by (intro steps_ok_intros steps_ok_if)

lemma steps_ok_enable_repo: "steps_ok (enable_repo e r)"
  unfolding enable_repo_def by (intro steps_ok_intros)

lemma steps_ok_install_katello_agent: "steps_ok (install_katello_agent e)"
  unfolding install_katello_agent_def by (intro steps_ok_intros steps_ok_if)

lemma steps_ok_configure_puppet: "steps_ok (configure_puppet e r)"
  unfolding configure_puppet_def
  by (intro steps_ok_intros steps_ok_if steps_ok_configure_rhel_repo)

lemma steps_ok_case_option:
  "steps_ok m \<Longrightarrow> (\<And>x. steps_ok (f x)) \<Longrightarrow> steps_ok (case v of None \<Rightarrow> m | Some x \<Rightarrow> f x)"
  by (cases v) simp_all

lemma steps_ok_case_prod:
  "(\<And>a b. steps_ok (f a b)) \<Longrightarrow> steps_ok (case v of (a, b) \<Rightarrow> f a b)"
  by (cases v) simp

lemma steps_ok_execute_foreman_scap_client: "steps_ok (execute_foreman_scap_client e p)"
  unfolding execute_foreman_scap_client_def
  by (intro steps_ok_intros steps_ok_if steps_ok_case_option steps_ok_case_prod)

lemma steps_ok_configure_rhai_client: "steps_ok (configure_rhai_client e ak org d)"
  unfolding configure_rhai_client_def Let_def
  by (intro steps_ok_intros steps_ok_if steps_ok_case_option steps_ok_case_prod
        steps_ok_configure_rhel_repo steps_ok_register_contenthost)

lemma steps_ok_do_call: "steps_ok (do_call e c)"
  by (cases c)
     (simp_all add: steps_ok_intros steps_ok_create steps_ok_destroy steps_ok_enter exit_vm_def
        steps_ok_configure_rhel_repo steps_ok_download_install_rpm steps_ok_enable_repo
        steps_ok_install_katello_agent steps_ok_configure_puppet steps_ok_unregister
        steps_ok_execute_foreman_scap_client steps_ok_configure_rhai_client
        steps_ok_register_contenthost)

lemma steps_ok_do_calls: "steps_ok (do_calls e cs final)"
proof (induction cs)
  case Nil
  show ?case by (cases final) (simp_all add: steps_ok_ret steps_ok_throw)
next
  case (Cons c cs)
  show ?case by (simp add: steps_ok_bindE steps_ok_do_call Cons.IH)
qed







section \<open>Scoped use\<close>

lemma enter_Inr:
  "enter e s = (Inr u, s') \<Longrightarrow> create e s = (Inr (), s')"
  by (auto simp: enter_def bindE_def ret_def split: prod.splits sum.splits)

text \<open>
  Claim C3, as amended. In scoped use of a machine with an image directory, once
  \<^verbatim>\<open>__enter__\<close> has returned, \<^verbatim>\<open>__exit__\<close> runs \<^verbatim>\<open>destroy\<close> however the body
  ends: for every body made of calls of the class's methods, ended normally, by a method
  that raises or by an error of the caller's own, the commands of \<^verbatim>\<open>destroy\<close> follow
  the events of the body, the outcome of the body (its error included) goes on to the
  caller, and the object is left as the body left it: still created, since the code has
  no Destroyed state.
\<close>

theorem scoped_use_destroys:
  assumes "\<not> p_created fresh"
    and "image_dir fresh = Some dir"
    and "enter e (fresh, tr_a) = (Inr u, made, tr_b)"
    and "do_calls e body final (made, tr_b) = (r, left, tr_c)"
  shows "\<exists>ti path.
     target_image fresh = Inr ti \<and> os_path_join (Some dir) (ti @ ''.img'') = Inr path \<and>
     with_vm e (do_calls e body final) (fresh, tr_a) =
       (r, left,
        tr_c @ (if p_subscribed left
                then [SshCommand ''subscription-manager unregister'' (ip_addr left)] else [])
             @ [SshCommand (''virsh destroy '' @ ti) (Some (provisioning_server fresh)),
                SshCommand (''virsh undefine '' @ ti) (Some (provisioning_server fresh)),
                SshCommand (''rm '' @ path) (Some (provisioning_server fresh))]) \<and>
     p_created left \<and> lifecycleState left = Created"
proof -
  have c: "create e (fresh, tr_a) = (Inr (), made, tr_b)"
    using assms(3) by (rule enter_Inr)
  obtain ti ip where ti: "target_image fresh = Inr ti"
    and m: "made = fresh\<lparr>ip_addr := Some ip, p_created := True\<rparr>"
    using create_target_image [OF assms(1) c] by blast
  obtain path where path: "os_path_join (Some dir) (ti @ ''.img'') = Inr path"
    using os_path_join_Some by blast
  have "vm_step made left"
    using steps_ok_do_calls [of e body final] assms(4) unfolding steps_ok_def by blast
  moreover have "p_created made" by (simp add: m)
  ultimately obtain b where l: "left = made\<lparr>p_subscribed := b\<rparr>"
    unfolding vm_step_def by blast
  have pc: "p_created left" by (simp add: l m)
  have t: "target_image left = Inr ti"
    unfolding l m using ti by (simp add: target_image_frame)
  have i: "os_path_join (image_dir left) (ti @ ''.img'') = Inr path"
    using assms(2) path by (simp add: l m)
  have ps: "provisioning_server left = provisioning_server fresh" by (simp add: l m)
  have d: "exit_vm e (left, tr_c) =
     (Inr (), left,
        tr_c @ (if p_subscribed left
                then [SshCommand ''subscription-manager unregister'' (ip_addr left)] else [])
             @ [SshCommand (''virsh destroy '' @ ti) (Some (provisioning_server fresh)),
                SshCommand (''virsh undefine '' @ ti) (Some (provisioning_server fresh)),
                SshCommand (''rm '' @ path) (Some (provisioning_server fresh))])"
    unfolding exit_vm_def using destroy_created [OF pc t i, of e tr_c] by (simp add: ps)
  have w: "with_vm e (do_calls e body final) (fresh, tr_a) =
       (r, left,
        tr_c @ (if p_subscribed left
                then [SshCommand ''subscription-manager unregister'' (ip_addr left)] else [])
             @ [SshCommand (''virsh destroy '' @ ti) (Some (provisioning_server fresh)),
                SshCommand (''virsh undefine '' @ ti) (Some (provisioning_server fresh)),
                SshCommand (''rm '' @ path) (Some (provisioning_server fresh))])"
    by (simp add: with_vm_def assms(3) assms(4) d)
  have ls: "lifecycleState left = Created" using pc by (simp add: lifecycleState_def)
  from ti path w pc ls show ?thesis by blast
qed

lemma example_enter:
  "enter (example_env answer_ok_then_fail) (example_vm, []) =
     (Inr (), example_created, example_trace)"
  by (simp add: enter_def bindE_def example_create_then_fail ret_def)

lemma example_body_fails:
  "do_calls (example_env answer_ok_then_fail) [Run ''ls''] (Some (VirtualMachineError ''test failed''))
      (example_created, example_trace) =
     (Inl (VirtualMachineError ''test failed''), example_created,
      example_trace @ [SshCommand ''ls'' (Some ''192.0.2.5'')])"
  by code_simp

theorem scoped_use_destroys_witness:
  "\<not> p_created example_vm \<and>
   with_vm (example_env answer_ok_then_fail)
      (do_calls (example_env answer_ok_then_fail) [Run ''ls'']
         (Some (VirtualMachineError ''test failed''))) (example_vm, []) =
     (Inl (VirtualMachineError ''test failed''), example_created,
      example_trace @ [SshCommand ''ls'' (Some ''192.0.2.5'')] @ example_destroy_trace) \<and>
   p_created example_created"
proof -
  let ?e = "example_env answer_ok_then_fail"
  have h: "\<not> p_created example_vm" by (simp add: example_vm_def)
  have i: "image_dir example_vm = Some ''/var/lib/libvirt/images''" by (simp add: example_vm_def)
  from scoped_use_destroys [OF h i example_enter example_body_fails]
  obtain ti path where
    ti: "target_image example_vm = Inr ti"
    and path: "os_path_join (Some ''/var/lib/libvirt/images'') (ti @ ''.img'') = Inr path"
    and w: "with_vm ?e (do_calls ?e [Run ''ls''] (Some (VirtualMachineError ''test failed'')))
        (example_vm, []) =
       (Inl (VirtualMachineError ''test failed''), example_created,
        (example_trace @ [SshCommand ''ls'' (Some ''192.0.2.5'')])
           @ (if p_subscribed example_created
                then [SshCommand ''subscription-manager unregister'' (ip_addr example_created)] else [])
             @ [SshCommand (''virsh destroy '' @ ti) (Some (provisioning_server example_vm)),
                SshCommand (''virsh undefine '' @ ti) (Some (provisioning_server example_vm)),
                SshCommand (''rm '' @ path) (Some (provisioning_server example_vm))])"
    and pc: "p_created example_created"
    by blast
  have ti': "ti = ''vm7.example.com''" using ti example_target_image by simp
  have path': "path = ''/var/lib/libvirt/images/vm7.example.com.img''"
    using path example_image_path unfolding ti' by simp
  have ns: "\<not> p_subscribed example_created" by (simp add: example_created_def example_vm_def)
  have w': "with_vm ?e (do_calls ?e [Run ''ls''] (Some (VirtualMachineError ''test failed'')))
        (example_vm, []) =
     (Inl (VirtualMachineError ''test failed''), example_created,
      example_trace @ [SshCommand ''ls'' (Some ''192.0.2.5'')] @ example_destroy_trace)"
    using w unfolding ti' path'
    by (simp add: ns example_destroy_trace_def example_vm_def)
  from h w' pc show ?thesis by blast
qed

text \<open>A scope whose body raises at once: \<^verbatim>\<open>destroy\<close> has run, the error of the body
  comes out, and the object is created with its address set.\<close>

theorem scoped_use_not_destroyed_counterexample:
  "with_vm (example_env answer_ok_then_fail)
      (do_calls (example_env answer_ok_then_fail) []
         (Some (VirtualMachineError ''test failed''))) (example_vm, []) =
     (Inl (VirtualMachineError ''test failed''), example_created,
      example_trace @ example_destroy_trace) \<and>
   p_created example_created \<and> ip_addr example_created = Some ''192.0.2.5'' \<and>
   lifecycleState example_created = Created \<and>
   lifecycleState example_created \<noteq> Destroyed"
  by code_simp

section \<open>Result checks of the orchestration helpers\<close>

text \<open>
  What the helpers with a result check do on a created machine. \<^verbatim>\<open>configure_puppet\<close>
  stops at a failed install of puppet, before the configuration is written and the
  agent runs; \<^verbatim>\<open>download_install_rpm\<close> and \<^verbatim>\<open>install_katello_agent\<close> raise exactly
  when the final query exits non-zero; \<^verbatim>\<open>configure_rhai_client\<close> stops at a failed
  install of the insights package.
\<close>

lemma configure_puppet_stops_at_install:
  assumes "p_created self"
    and "wget = SshCommand (''wget -O /etc/yum.repos.d/rhel.repo '' @ fmt rhel_repo) (ip_addr self)"
    and "return_code (ssh_command e (tr @ [wget]) ''yum install puppet -y'' (ip_addr self)) \<noteq> 0"
  shows "configure_puppet e rhel_repo (self, tr) =
     (Inl (VirtualMachineError ''Failed to install the puppet rpm''), self,
      tr @ [wget, SshCommand ''yum install puppet -y'' (ip_addr self)])"
  using assms
  by (simp add: configure_puppet_def configure_rhel_repo_def bindE_def run_created throw_def ret_def)

lemma configure_puppet_runs_all:
  assumes "p_created self"
    and "wget = SshCommand (''wget -O /etc/yum.repos.d/rhel.repo '' @ fmt rhel_repo) (ip_addr self)"
    and "return_code (ssh_command e (tr @ [wget]) ''yum install puppet -y'' (ip_addr self)) = 0"
  shows "configure_puppet e rhel_repo (self, tr) =
     (Inr (), self,
      tr @ [wget, SshCommand ''yum install puppet -y'' (ip_addr self),
            SshCommand (puppet_conf_command e) (ip_addr self),
            SshCommand ''puppet agent -t'' (ip_addr self),
            SshCommand ''puppet cert sign --all'' None,
            SshCommand ''puppet agent -t 2> /dev/null'' (ip_addr self)])"
  using assms
  by (simp add: configure_puppet_def configure_rhel_repo_def bindE_def run_created ssh_cmd_def
        throw_def ret_def)

lemma download_install_rpm_checks_query:
  assumes "p_created self"
    and "issued = [SshCommand (''wget -nd -r -l1 --no-parent -A '' @ [CHR 0x27] @ package_name
                     @ ''.rpm'' @ [CHR 0x27] @ '' '' @ repo_url) (ip_addr self),
                   SshCommand (''rpm -i '' @ package_name @ ''.rpm'') (ip_addr self)]"
  shows "download_install_rpm e repo_url package_name (self, tr) =
     (if return_code (ssh_command e (tr @ issued) (''rpm -q '' @ package_name) (ip_addr self)) \<noteq> 0
      then Inl (VirtualMachineError (''Failed to install '' @ package_name @ '' rpm.''))
      else Inr (),
      self, tr @ issued @ [SshCommand (''rpm -q '' @ package_name) (ip_addr self)])"
  using assms
  by (simp add: download_install_rpm_def bindE_def run_created throw_def ret_def)

lemma install_katello_agent_checks_query:
  assumes "p_created self"
    and "issued = [SshCommand ''yum install -y katello-agent'' (ip_addr self)]"
  shows "install_katello_agent e (self, tr) =
     (if return_code (ssh_command e (tr @ issued) ''rpm -q katello-agent'' (ip_addr self)) \<noteq> 0
      then Inl (VirtualMachineError ''Failed to install katello-agent'')
      else Inr (),
      self, tr @ issued @ [SshCommand ''rpm -q katello-agent'' (ip_addr self)])"
  using assms
  by (simp add: install_katello_agent_def bindE_def run_created throw_def ret_def)

lemma configure_rhai_client_stops_at_install:
  assumes "p_created self"
    and "helpers_install_katello_ca e tr (ip_addr self)"
    and "rhai_repos e rhel_distro = Some (Some rhel_repo, Some insights_repo)"
    and "register_command (settings e) org (Some ak) None True None = Inr reg"
    and "tr_r = tr @ [InstallKatelloCa (ip_addr self), SshCommand reg (ip_addr self)]"
    and "self_r = (if return_code (ssh_command e (tr @ [InstallKatelloCa (ip_addr self)]) reg
                                     (ip_addr self)) = 0
                   then self\<lparr>p_subscribed := True\<rparr> else self)"
    and "issued = [SshCommand (''wget -O /etc/yum.repos.d/rhel.repo '' @ rhel_repo) (ip_addr self),
                   SshCommand (''wget -O /etc/yum.repos.d/insights.repo '' @ insights_repo)
                     (ip_addr self)]"
    and "return_code (ssh_command e (tr_r @ issued) ''yum install -y redhat-access-insights''
                        (ip_addr self)) \<noteq> 0"
  shows "configure_rhai_client e (Some ak) org rhel_distro (self, tr) =
     (Inl (VirtualMachineError ''Unable to install redhat-access-insights package''), self_r,
      tr_r @ issued @ [SshCommand ''yum install -y redhat-access-insights'' (ip_addr self)])"
proof -
  have i: "install_katello_ca e (self, tr) =
      (Inr (), self, tr @ [InstallKatelloCa (ip_addr self)])"
    using assms(2) by (simp add: install_katello_ca_def)
  have r: "register_contenthost e org (Some ak) None True None
        (self, tr @ [InstallKatelloCa (ip_addr self)]) =
      (Inr (ssh_command e (tr @ [InstallKatelloCa (ip_addr self)]) reg (ip_addr self)),
       self_r, tr_r)"
    using assms(1) by (simp add: register_contenthost_def assms(4,5,6) bindE_def run_created ret_def)
  have c: "p_created self_r" "ip_addr self_r = ip_addr self"
    using assms(1) by (simp_all add: assms(6))
  show ?thesis
    using assms(8) unfolding assms(7)
    by (simp add: configure_rhai_client_def bindE_def i r assms(3) fmt_def
          configure_rhel_repo_def run_created c throw_def ret_def)
qed


end
